theory Spec2Isabelle
  imports Complex_Main
begin

section \<open>The values that \<^verbatim>\<open>compare\<close> walks\<close>

text \<open>
  \<^verbatim>\<open>check_diff.py\<close> decodes two JSON texts with \<^verbatim>\<open>json.loads\<close> and hands the results to
  \<^verbatim>\<open>compare(path, l, r)\<close>. A decoded value is a \<^verbatim>\<open>dict\<close> with string keys, a
  \<^verbatim>\<open>list\<close>, or a leaf: \<^verbatim>\<open>None\<close>, a \<^verbatim>\<open>bool\<close>, an \<^verbatim>\<open>int\<close>, a \<^verbatim>\<open>float\<close> or a \<^verbatim>\<open>str\<close>.

  A \<^verbatim>\<open>float\<close> is kept by the number it denotes. Python decides \<^verbatim>\<open>==\<close> between
  \<^verbatim>\<open>int\<close>, \<^verbatim>\<open>bool\<close> and \<^verbatim>\<open>float\<close> on the exact numbers, so a finite float is a
  rational here; the three special floats that \<^verbatim>\<open>json.loads\<close> yields for the literals
  \<^verbatim>\<open>Infinity\<close>, \<^verbatim>\<open>-Infinity\<close> and \<^verbatim>\<open>NaN\<close> are constructors of their own.
\<close>

datatype pyfloat = Finite rat | PosInf | NegInf | NaN

datatype scalar = SNone | SBool bool | SInt int | SFloat pyfloat | SStr string

text \<open>
  A \<^verbatim>\<open>dict\<close> is the list of its items in insertion order, which is the order in which
  \<^verbatim>\<open>for k in l\<close> visits the keys. Python holds every key once; that is the first
  conjunct of \<open>well_formed\<close> below.
\<close>

datatype pyval = VDict "(string \<times> pyval) list" | VList "pyval list" | VScalar scalar

fun well_formed :: "pyval \<Rightarrow> bool" where
  "well_formed (VDict l) = (distinct (map fst l) \<and> list_all (\<lambda>(k, v). well_formed v) l)"
| "well_formed (VList l) = list_all well_formed l"
| "well_formed (VScalar a) = True"

fun nan_free :: "pyval \<Rightarrow> bool" where
  "nan_free (VDict l) = list_all (\<lambda>(k, v). nan_free v) l"
| "nan_free (VList l) = list_all nan_free l"
| "nan_free (VScalar a) = (a \<noteq> SFloat NaN)"

text \<open>Nesting depth: a leaf has depth 0, a container one more than its deepest item.\<close>

fun depth :: "pyval \<Rightarrow> nat" where
  "depth (VDict l) = Suc (fold max (map (\<lambda>(k, v). depth v) l) 0)"
| "depth (VList l) = Suc (fold max (map depth l) 0)"
| "depth (VScalar a) = 0"

section \<open>Python's \<^verbatim>\<open>==\<close> and \<^verbatim>\<open>!=\<close> on decoded values\<close>

text \<open>
  Numbers compare by value across \<^verbatim>\<open>bool\<close>, \<^verbatim>\<open>int\<close> and \<^verbatim>\<open>float\<close>
  (\<^verbatim>\<open>True == 1\<close>, \<^verbatim>\<open>1 == 1.0\<close>), and \<^verbatim>\<open>NaN\<close> equals nothing, itself included.
  \<^verbatim>\<open>None\<close> and strings equal only their like.
\<close>

fun num_val :: "scalar \<Rightarrow> pyfloat option" where
  "num_val (SBool b) = Some (Finite (if b then 1 else 0))"
| "num_val (SInt i) = Some (Finite (of_int i))"
| "num_val (SFloat x) = Some x"
| "num_val SNone = None"
| "num_val (SStr s) = None"

definition float_eq :: "pyfloat \<Rightarrow> pyfloat \<Rightarrow> bool" where
  "float_eq x y = (x \<noteq> NaN \<and> x = y)"

definition scalar_eq :: "scalar \<Rightarrow> scalar \<Rightarrow> bool" where
  "scalar_eq a b =
     (case num_val a of
        Some x \<Rightarrow> (case num_val b of Some y \<Rightarrow> float_eq x y | None \<Rightarrow> False)
      | None \<Rightarrow> (case num_val b of Some y \<Rightarrow> False | None \<Rightarrow> a = b))"

text \<open>
  A \<^verbatim>\<open>list\<close> or \<^verbatim>\<open>dict\<close> compares its items with a shortcut: two items that are the
  same object count as equal without \<^verbatim>\<open>==\<close> being asked. The shortcut shows only where
  an object differs from itself, which is \<^verbatim>\<open>NaN\<close>. \<^verbatim>\<open>json.loads\<close> returns, for every
  \<^verbatim>\<open>NaN\<close> literal, the one float object of its table of constants, so two \<^verbatim>\<open>NaN\<close> items
  of decoded documents are the same object: \<^verbatim>\<open>[nan] == [nan]\<close> holds for them although
  \<^verbatim>\<open>nan == nan\<close> does not.
\<close>

definition same_object :: "pyval \<Rightarrow> pyval \<Rightarrow> bool" where
  "same_object v w = (v = VScalar (SFloat NaN) \<and> w = VScalar (SFloat NaN))"

lemma size_nth_less: "i < length xs \<Longrightarrow> size (xs ! i) < Suc (size_list size xs)"
  by (metis less_Suc_eq_le less_imp_le_nat nth_mem size_list_estimation' order_refl le_imp_less_Suc)

lemma size_entry_less:
  "(k, v) \<in> set xs \<Longrightarrow> size v < Suc (size_list (size_prod (\<lambda>x. 0) size) xs)"
  by (induction xs) auto

text \<open>
  Two dicts are equal when they have as many items and every key of the left is a key of
  the right with an equal value (the order of the items plays no part); two lists when
  they have the same length and equal items at every index.
\<close>

function py_eq :: "pyval \<Rightarrow> pyval \<Rightarrow> bool" where
  "py_eq (VDict l) (VDict r) =
     (length l = length r \<and>
      list_all (\<lambda>(k, v). case map_of r k of
                              None \<Rightarrow> False
                            | Some w \<Rightarrow> same_object v w \<or> py_eq v w) l)"
| "py_eq (VList l) (VList r) =
     (length l = length r \<and>
      list_all (\<lambda>i. same_object (l ! i) (r ! i) \<or> py_eq (l ! i) (r ! i)) [0..<length l])"
| "py_eq (VScalar a) (VScalar b) = scalar_eq a b"
| "py_eq (VDict l) (VList r) = False"
| "py_eq (VDict l) (VScalar b) = False"
| "py_eq (VList l) (VDict r) = False"
| "py_eq (VList l) (VScalar b) = False"
| "py_eq (VScalar a) (VDict r) = False"
| "py_eq (VScalar a) (VList r) = False"
  by pat_completeness auto
termination
  by (relation "measure (\<lambda>(l, r). size l)") (auto simp: size_nth_less size_entry_less)

definition py_ne :: "pyval \<Rightarrow> pyval \<Rightarrow> bool" where
  "py_ne l r = (\<not> py_eq l r)"

section \<open>The program state and the printed lines\<close>

text \<open>
  \<^verbatim>\<open>compare\<close> prints; it returns nothing. A printed line is kept by its kind and its path.
  The line \<^verbatim>\<open>Difference at {path}: {l} != {r}\<close> keeps the two values themselves in place
  of their rendering by \<^verbatim>\<open>str\<close>.
\<close>

datatype line =
    Difference string pyval pyval
  | MissingRight string
  | MissingLeft string
  | LengthMismatch string

datatype kind = ValueMismatch | MissingKeyInRight | MissingKeyInLeft | LengthMismatchKind

fun kind_of :: "line \<Rightarrow> kind" where
  "kind_of (Difference p l r) = ValueMismatch"
| "kind_of (MissingRight p) = MissingKeyInRight"
| "kind_of (MissingLeft p) = MissingKeyInLeft"
| "kind_of (LengthMismatch p) = LengthMismatchKind"

fun path_of :: "line \<Rightarrow> string" where
  "path_of (Difference p l r) = p"
| "path_of (MissingRight p) = p"
| "path_of (MissingLeft p) = p"
| "path_of (LengthMismatch p) = p"

text \<open>
  The state of the script: its two global documents \<^verbatim>\<open>left\<close> and \<^verbatim>\<open>right\<close>, and the
  lines written to standard output so far.
\<close>

record state =
  left :: pyval
  right :: pyval
  stdout :: "line list"

definition init :: "pyval \<Rightarrow> pyval \<Rightarrow> state" where
  "init l r = \<lparr>left = l, right = r, stdout = []\<rparr>"

definition print :: "line \<Rightarrow> state \<Rightarrow> state" where
  "print x s = s\<lparr>stdout := stdout s @ [x]\<rparr>"

text \<open>The paths \<^verbatim>\<open>f"{path}.{k}"\<close> and \<^verbatim>\<open>f"{path}[{i}]"\<close>, the index in decimal; \<open>digit\<close> is
  only asked for numbers below ten.\<close>

definition digit :: "nat \<Rightarrow> char" where
  "digit n = ''0123456789'' ! n"

fun str_nat :: "nat \<Rightarrow> string" where
  "str_nat n = (if n < 10 then [digit n] else str_nat (n div 10) @ [digit (n mod 10)])"

declare str_nat.simps [simp del]

definition key_path :: "string \<Rightarrow> string \<Rightarrow> string" where
  "key_path path k = path @ ''.'' @ k"

definition index_path :: "string \<Rightarrow> nat \<Rightarrow> string" where
  "index_path path i = path @ ''['' @ str_nat i @ '']''"

section \<open>\<^verbatim>\<open>compare\<close>\<close>

text \<open>
  Lines 10 to 26 of \<^verbatim>\<open>check_diff.py\<close>. The two \<^verbatim>\<open>for\<close> loops over the keys and the loop
  over \<^verbatim>\<open>range(min(len(l), len(r)))\<close> are folds that thread the state. In the first loop
  \<^verbatim>\<open>l[k]\<close> is the value of the item being visited and \<^verbatim>\<open>r[k]\<close> is looked up in \<open>r\<close>;
  \<^verbatim>\<open>k in r\<close> is \<open>map_of r k \<noteq> None\<close>. The last five equations are the pairs that are
  neither two dicts nor two lists: only line 11 and 12 run.
\<close>

function compare :: "string \<Rightarrow> pyval \<Rightarrow> pyval \<Rightarrow> state \<Rightarrow> state" where
  "compare path (VDict l) (VDict r) s =
     (let s1 = (if py_ne (VDict l) (VDict r)
                then print (Difference path (VDict l) (VDict r)) s else s);
          s2 = fold (\<lambda>(k, v) t. case map_of r k of
                                     Some w \<Rightarrow> compare (key_path path k) v w t
                                   | None \<Rightarrow> print (MissingRight (key_path path k)) t) l s1
      in fold (\<lambda>(k, w) t. if map_of l k = None
                             then print (MissingLeft (key_path path k)) t else t) r s2)"
| "compare path (VList l) (VList r) s =
     (let s1 = (if py_ne (VList l) (VList r)
                then print (Difference path (VList l) (VList r)) s else s);
          s2 = (if length l \<noteq> length r then print (LengthMismatch path) s1 else s1)
      in fold (\<lambda>i t. compare (index_path path i) (l ! i) (r ! i) t)
              [0..<min (length l) (length r)] s2)"
| "compare path (VScalar a) r s =
     (if py_ne (VScalar a) r then print (Difference path (VScalar a) r) s else s)"
| "compare path (VDict l) (VList r) s =
     (if py_ne (VDict l) (VList r) then print (Difference path (VDict l) (VList r)) s else s)"
| "compare path (VDict l) (VScalar b) s =
     (if py_ne (VDict l) (VScalar b) then print (Difference path (VDict l) (VScalar b)) s else s)"
| "compare path (VList l) (VDict r) s =
     (if py_ne (VList l) (VDict r) then print (Difference path (VList l) (VDict r)) s else s)"
| "compare path (VList l) (VScalar b) s =
     (if py_ne (VList l) (VScalar b) then print (Difference path (VList l) (VScalar b)) s else s)"
  by pat_completeness auto
termination
  by (relation "measure (\<lambda>(p, l, r, s). size l)") (auto simp: size_nth_less size_entry_less)

text \<open>The lines one call prints, started on an empty output.\<close>

definition report :: "string \<Rightarrow> pyval \<Rightarrow> pyval \<Rightarrow> line list" where
  "report path l r = stdout (compare path l r (init l r))"

text \<open>
  The same body run on a budget of nested calls: \<open>compare_fuel n\<close> may nest \<open>n\<close> calls
  deep, itself included, and is \<open>None\<close> when a call finds the budget spent (Python
  raises \<^verbatim>\<open>RecursionError\<close> at its limit).
\<close>

fun compare_fuel :: "nat \<Rightarrow> string \<Rightarrow> pyval \<Rightarrow> pyval \<Rightarrow> state \<Rightarrow> state option" where
  "compare_fuel 0 path l r s = None"
| "compare_fuel (Suc n) path (VDict l) (VDict r) s =
     (let s1 = (if py_ne (VDict l) (VDict r)
                then print (Difference path (VDict l) (VDict r)) s else s);
          s2 = fold (\<lambda>(k, v) t. case map_of r k of
                                     Some w \<Rightarrow> Option.bind t (compare_fuel n (key_path path k) v w)
                                   | None \<Rightarrow> map_option (print (MissingRight (key_path path k))) t)
                    l (Some s1)
      in map_option (fold (\<lambda>(k, w) t. if map_of l k = None
                                         then print (MissingLeft (key_path path k)) t else t) r) s2)"
| "compare_fuel (Suc n) path (VList l) (VList r) s =
     (let s1 = (if py_ne (VList l) (VList r)
                then print (Difference path (VList l) (VList r)) s else s);
          s2 = (if length l \<noteq> length r then print (LengthMismatch path) s1 else s1)
      in fold (\<lambda>i t. Option.bind t (compare_fuel n (index_path path i) (l ! i) (r ! i)))
              [0..<min (length l) (length r)] (Some s2))"
| "compare_fuel (Suc n) path l r s =
     Some (if py_ne l r then print (Difference path l r) s else s)"

section \<open>The two sample documents and the run of the script\<close>

text \<open>
  The documents that lines 3 and 5 spell out as JSON text, as values. Both texts stop one
  closing brace short: each has 50 opening braces and 49 closing ones, and the six braces
  that end the text close \<^verbatim>\<open>"200"\<close>, \<^verbatim>\<open>"responses"\<close>, \<^verbatim>\<open>"get"\<close>, \<^verbatim>\<open>"/users/{id}"\<close>,
  \<^verbatim>\<open>"paths"\<close> and \<^verbatim>\<open>"components"\<close>, which holds \<^verbatim>\<open>"info"\<close>, \<^verbatim>\<open>"openapi"\<close> and \<^verbatim>\<open>"paths"\<close>
  beside \<^verbatim>\<open>"schemas"\<close>; the outermost object stays open. So \<^verbatim>\<open>json.loads\<close> on line 7
  raises \<^verbatim>\<open>JSONDecodeError\<close>, and the script as it stands prints no line. The decoder is
  not part of this development: \<open>left_doc\<close> and \<open>right_doc\<close> are what the two texts
  decode to once that last brace is supplied, and the run is modelled from line 28 on.
  The key written \<^verbatim>\<open>""\<close> is the empty string.
\<close>

definition left_doc :: pyval where
  "left_doc =
     VDict
       [(''components'', VDict
         [(''schemas'', VDict
           [(''ErrorBodySchema'', VDict
             [(''properties'', VDict
               [(''error_type'', VDict [(''type'', VScalar (SStr ''string''))]),
                (''fields'', VDict
                 [(''items'', VDict
                   [('''', VScalar (SStr ''#/components/schemas/FieldErrorSchema''))]),
                  (''type'', VList [VScalar (SStr ''array''), VScalar (SStr ''null'')])]),
                (''message'', VDict [(''type'', VScalar (SStr ''string''))])]),
              (''required'', VList [VScalar (SStr ''error_type''), VScalar (SStr ''message'')]),
              (''type'', VScalar (SStr ''object''))]),
            (''ErrorSchema'', VDict
             [(''properties'', VDict
               [(''error'', VDict
                 [('''', VScalar (SStr ''#/components/schemas/ErrorBodySchema''))]),
                (''request_id'', VDict
                 [(''type'', VList [VScalar (SStr ''string''), VScalar (SStr ''null'')])])]),
              (''required'', VList [VScalar (SStr ''error'')]),
              (''type'', VScalar (SStr ''object''))]),
            (''FieldErrorSchema'', VDict
             [(''properties'', VDict
               [(''code'', VDict [(''type'', VScalar (SStr ''string''))]),
                (''field'', VDict [(''type'', VScalar (SStr ''string''))]),
                (''message'', VDict [(''type'', VScalar (SStr ''string''))])]),
              (''required'', VList
               [VScalar (SStr ''field''),
                VScalar (SStr ''code''),
                VScalar (SStr ''message'')]),
              (''type'', VScalar (SStr ''object''))]),
            (''SnapshotUser'', VDict
             [(''properties'', VDict
               [(''id'', VDict
                 [(''format'', VScalar (SStr ''int64'')),
                  (''type'', VScalar (SStr ''integer''))]),
                (''username'', VDict [(''type'', VScalar (SStr ''string''))])]),
              (''required'', VList [VScalar (SStr ''id''), VScalar (SStr ''username'')]),
              (''type'', VScalar (SStr ''object''))]),
            (''ValidationErrorBodySchema'', VDict
             [(''properties'', VDict
               [(''error_type'', VDict [(''type'', VScalar (SStr ''string''))]),
                (''fields'', VDict
                 [(''items'', VDict
                   [('''', VScalar (SStr ''#/components/schemas/FieldErrorSchema''))]),
                  (''type'', VScalar (SStr ''array''))]),
                (''message'', VDict [(''type'', VScalar (SStr ''string''))])]),
              (''required'', VList
               [VScalar (SStr ''error_type''),
                VScalar (SStr ''message''),
                VScalar (SStr ''fields'')]),
              (''type'', VScalar (SStr ''object''))]),
            (''ValidationErrorSchema'', VDict
             [(''properties'', VDict
               [(''error'', VDict
                 [('''', VScalar (SStr ''#/components/schemas/ValidationErrorBodySchema''))])]),
              (''required'', VList [VScalar (SStr ''error'')]),
              (''type'', VScalar (SStr ''object''))])]),
          (''info'', VDict
           [(''description'', VScalar (SStr ''Test Description'')),
            (''title'', VScalar (SStr ''Snapshot API'')),
            (''version'', VScalar (SStr ''1.0.0''))]),
          (''jsonSchemaDialect'', VScalar (SStr ''https://json-schema.org/draft/2020-12/schema'')),
          (''openapi'', VScalar (SStr ''3.1.0'')),
          (''paths'', VDict
           [(''/users'', VDict
             [(''get'', VDict
               [(''responses'', VDict
                 [(''200'', VDict
                   [(''content'', VDict
                     [(''text/plain'', VDict
                       [(''schema'', VDict [(''type'', VScalar (SStr ''string''))])])]),
                    (''description'', VScalar (SStr ''Successful response''))])])])]),
            (''/users/{id}'', VDict
             [(''get'', VDict
               [(''parameters'', VList
                 [VDict
                   [(''in'', VScalar (SStr ''path'')),
                    (''name'', VScalar (SStr ''id'')),
                    (''required'', VScalar (SBool True)),
                    (''schema'', VDict [(''type'', VScalar (SStr ''string''))])]]),
                (''responses'', VDict
                 [(''200'', VDict
                   [(''content'', VDict
                     [(''text/plain'', VDict
                       [(''schema'', VDict [(''type'', VScalar (SStr ''string''))])])]),
                    (''description'', VScalar (SStr ''Successful response''))])])])])])])]"

definition right_doc :: pyval where
  "right_doc =
     VDict
       [(''components'', VDict
         [(''schemas'', VDict
           [(''ErrorBodySchema'', VDict
             [(''properties'', VDict
               [(''error_type'', VDict [(''type'', VScalar (SStr ''string''))]),
                (''fields'', VDict
                 [(''items'', VDict
                   [('''', VScalar (SStr ''#/components/schemas/FieldErrorSchema''))]),
                  (''type'', VList [VScalar (SStr ''array''), VScalar (SStr ''null'')])]),
                (''message'', VDict [(''type'', VScalar (SStr ''string''))])]),
              (''required'', VList [VScalar (SStr ''error_type''), VScalar (SStr ''message'')]),
              (''type'', VScalar (SStr ''object''))]),
            (''ErrorSchema'', VDict
             [(''properties'', VDict
               [(''error'', VDict
                 [('''', VScalar (SStr ''#/components/schemas/ErrorBodySchema''))]),
                (''request_id'', VDict
                 [(''type'', VList [VScalar (SStr ''string''), VScalar (SStr ''null'')])])]),
              (''required'', VList [VScalar (SStr ''error'')]),
              (''type'', VScalar (SStr ''object''))]),
            (''FieldErrorSchema'', VDict
             [(''properties'', VDict
               [(''code'', VDict [(''type'', VScalar (SStr ''string''))]),
                (''field'', VDict [(''type'', VScalar (SStr ''string''))]),
                (''message'', VDict [(''type'', VScalar (SStr ''string''))])]),
              (''required'', VList
               [VScalar (SStr ''field''),
                VScalar (SStr ''code''),
                VScalar (SStr ''message'')]),
              (''type'', VScalar (SStr ''object''))]),
            (''SnapshotUser'', VDict
             [(''properties'', VDict
               [(''id'', VDict
                 [(''format'', VScalar (SStr ''int64'')),
                  (''type'', VScalar (SStr ''integer''))]),
                (''username'', VDict [(''type'', VScalar (SStr ''string''))])]),
              (''required'', VList [VScalar (SStr ''id''), VScalar (SStr ''username'')]),
              (''type'', VScalar (SStr ''object''))]),
            (''ValidationErrorBodySchema'', VDict
             [(''properties'', VDict
               [(''error_type'', VDict [(''type'', VScalar (SStr ''string''))]),
                (''fields'', VDict
                 [(''items'', VDict
                   [('''', VScalar (SStr ''#/components/schemas/FieldErrorSchema''))]),
                  (''type'', VScalar (SStr ''string''))]),
                (''message'', VDict [(''type'', VScalar (SStr ''string''))])]),
              (''required'', VList
               [VScalar (SStr ''error_type''),
                VScalar (SStr ''message''),
                VScalar (SStr ''fields'')]),
              (''type'', VScalar (SStr ''object''))]),
            (''ValidationErrorSchema'', VDict
             [(''properties'', VDict
               [(''error'', VDict
                 [('''', VScalar (SStr ''#/components/schemas/ValidationErrorBodySchema''))])]),
              (''required'', VList [VScalar (SStr ''error'')]),
              (''type'', VScalar (SStr ''object''))])]),
          (''info'', VDict
           [(''description'', VScalar (SStr ''Test Description'')),
            (''title'', VScalar (SStr ''Snapshot API'')),
            (''version'', VScalar (SStr ''1.0.0''))]),
          (''jsonSchemaDialect'', VScalar (SStr ''https://json-schema.org/draft/2020-12/schema'')),
          (''openapi'', VScalar (SStr ''3.1.0'')),
          (''paths'', VDict
           [(''/users'', VDict
             [(''get'', VDict
               [(''responses'', VDict
                 [(''200'', VDict
                   [(''content'', VDict
                     [(''text/plain'', VDict
                       [(''schema'', VDict [(''type'', VScalar (SStr ''string''))])])]),
                    (''description'', VScalar (SStr ''Successful response''))])])])]),
            (''/users/{id}'', VDict
             [(''get'', VDict
               [(''parameters'', VList
                 [VDict
                   [(''in'', VScalar (SStr ''path'')),
                    (''name'', VScalar (SStr ''id'')),
                    (''required'', VScalar (SBool True)),
                    (''schema'', VDict [(''type'', VScalar (SStr ''string''))])]]),
                (''responses'', VDict
                 [(''200'', VDict
                   [(''content'', VDict
                     [(''text/plain'', VDict
                       [(''schema'', VDict [(''type'', VScalar (SStr ''string''))])])]),
                    (''description'', VScalar (SStr ''Successful response''))])])])])])])]"

text \<open>Line 28, \<^verbatim>\<open>compare("root", left, right)\<close>, on the globals of the state.\<close>

definition script :: "state \<Rightarrow> state" where
  "script s = compare ''root'' (left s) (right s) s"

section \<open>What one call adds to the output\<close>

lemma fold_appends:
  fixes f :: "'a \<Rightarrow> state \<Rightarrow> state"
  assumes "\<And>x t. x \<in> set xs \<Longrightarrow> f x t = t\<lparr>stdout := stdout t @ g x\<rparr>"
  shows "fold f xs s = s\<lparr>stdout := stdout s @ concat (map g xs)\<rparr>"
  using assms
proof (induction xs arbitrary: s)
  case Nil
  then show ?case by simp
next
  case (Cons a xs)
  then show ?case by simp
qed

lemma if_print_appends:
  "(if c then print x t else t) = t\<lparr>stdout := stdout t @ (if c then [x] else [])\<rparr>"
  by (simp add: print_def)

lemma fold_missing_left:
  "fold (\<lambda>(k, w) t. if map_of l k = None then print (MissingLeft (key_path path k)) t else t) r s =
   s\<lparr>stdout := stdout s @
        concat (map (\<lambda>(k, w). if map_of l k = None then [MissingLeft (key_path path k)] else []) r)\<rparr>"
  by (rule fold_appends) (auto simp: print_def)

text \<open>Every call only appends to the output, and what it appends does not depend on the state.\<close>

lemma compare_appends_ex:
  fixes s :: state
  shows "\<exists>ys. \<forall>t. compare path l r t = t\<lparr>stdout := stdout t @ ys\<rparr>"
proof (induction path l r s rule: compare.induct)
  case (1 path l r s)
  let ?F = "\<lambda>(k, v) t. case map_of r k of
                         Some w \<Rightarrow> compare (key_path path k) v w t
                       | None \<Rightarrow> print (MissingRight (key_path path k)) t"
  have "\<exists>g. \<forall>x\<in>set l. \<forall>t. ?F x t = t\<lparr>stdout := stdout t @ g x\<rparr>"
  proof (rule bchoice, rule ballI)
    fix x assume x: "x \<in> set l"
    obtain k v where kv: "x = (k, v)" by (cases x)
    show "\<exists>ys. \<forall>t. ?F x t = t\<lparr>stdout := stdout t @ ys\<rparr>"
    proof (cases "map_of r k")
      case None
      then show ?thesis by (auto simp: kv print_def)
    next
      case (Some w)
      from "1.IH"[OF refl x kv[symmetric] Some] show ?thesis by (simp add: kv Some)
    qed
  qed
  then obtain g where g: "\<And>x t. x \<in> set l \<Longrightarrow> ?F x t = t\<lparr>stdout := stdout t @ g x\<rparr>"
    by blast
  have fold1: "fold ?F l t = t\<lparr>stdout := stdout t @ concat (map g l)\<rparr>" for t
    by (rule fold_appends) (rule g)
  let ?ys = "(if py_ne (VDict l) (VDict r) then [Difference path (VDict l) (VDict r)] else []) @
     concat (map g l) @
     concat (map (\<lambda>(k, w). if map_of l k = None then [MissingLeft (key_path path k)] else []) r)"
  have "\<forall>t. compare path (VDict l) (VDict r) t = t\<lparr>stdout := stdout t @ ?ys\<rparr>"
    by (simp add: Let_def fold1 fold_missing_left print_def)
  then show ?case by (rule exI)
next
  case (2 path l r s)
  let ?F = "\<lambda>i t. compare (index_path path i) (l ! i) (r ! i) t"
  let ?is = "[0..<min (length l) (length r)]"
  have "\<exists>g. \<forall>i\<in>set ?is. \<forall>t. ?F i t = t\<lparr>stdout := stdout t @ g i\<rparr>"
    by (rule bchoice, rule ballI) (rule "2.IH"[OF refl refl])
  then obtain g where g: "\<And>i t. i \<in> set ?is \<Longrightarrow> ?F i t = t\<lparr>stdout := stdout t @ g i\<rparr>"
    by blast
  have fold1: "fold ?F ?is t = t\<lparr>stdout := stdout t @ concat (map g ?is)\<rparr>" for t
    by (rule fold_appends) (rule g)
  let ?ys = "(if py_ne (VList l) (VList r) then [Difference path (VList l) (VList r)] else []) @
     (if length l \<noteq> length r then [LengthMismatch path] else []) @ concat (map g ?is)"
  have "\<forall>t. compare path (VList l) (VList r) t = t\<lparr>stdout := stdout t @ ?ys\<rparr>"
    by (simp add: Let_def fold1 print_def)
  then show ?case by (rule exI)
qed ((rule exI, rule allI, subst compare.simps, rule if_print_appends)+)

lemma compare_report: "compare path l r s = s\<lparr>stdout := stdout s @ report path l r\<rparr>"
proof -
  obtain ys where ys: "\<And>t. compare path l r t = t\<lparr>stdout := stdout t @ ys\<rparr>"
    using compare_appends_ex by blast
  have "report path l r = ys" by (simp add: report_def ys init_def)
  with ys show ?thesis by simp
qed

lemma stdout_compare: "stdout (compare path l r s) = stdout s @ report path l r"
  by (subst compare_report) simp

lemma report_dict:
  "report path (VDict l) (VDict r) =
     (if py_ne (VDict l) (VDict r) then [Difference path (VDict l) (VDict r)] else []) @
     concat (map (\<lambda>(k, v). case map_of r k of
                               Some w \<Rightarrow> report (key_path path k) v w
                             | None \<Rightarrow> [MissingRight (key_path path k)]) l) @
     concat (map (\<lambda>(k, w). if map_of l k = None then [MissingLeft (key_path path k)] else []) r)"
proof -
  let ?F = "\<lambda>(k, v) t. case map_of r k of
                         Some w \<Rightarrow> compare (key_path path k) v w t
                       | None \<Rightarrow> print (MissingRight (key_path path k)) t"
  let ?g = "\<lambda>(k, v). case map_of r k of
                               Some w \<Rightarrow> report (key_path path k) v w
                             | None \<Rightarrow> [MissingRight (key_path path k)]"
  have fold1: "fold ?F l t = t\<lparr>stdout := stdout t @ concat (map ?g l)\<rparr>" for t
    by (rule fold_appends) (auto simp: print_def compare_report split: option.splits)
  show ?thesis
    by (subst report_def) (simp add: init_def Let_def fold1 fold_missing_left print_def)
qed

lemma report_list:
  "report path (VList l) (VList r) =
     (if py_ne (VList l) (VList r) then [Difference path (VList l) (VList r)] else []) @
     (if length l \<noteq> length r then [LengthMismatch path] else []) @
     concat (map (\<lambda>i. report (index_path path i) (l ! i) (r ! i)) [0..<min (length l) (length r)])"
proof -
  let ?F = "\<lambda>i t. compare (index_path path i) (l ! i) (r ! i) t"
  let ?is = "[0..<min (length l) (length r)]"
  have fold1: "fold ?F ?is t =
      t\<lparr>stdout := stdout t @ concat (map (\<lambda>i. report (index_path path i) (l ! i) (r ! i)) ?is)\<rparr>" for t
    by (rule fold_appends) (rule compare_report)
  show ?thesis
    by (subst report_def) (simp add: init_def Let_def fold1 print_def)
qed

lemma report_other:
  "report path (VScalar a) r = (if py_ne (VScalar a) r then [Difference path (VScalar a) r] else [])"
  "report path (VDict d) (VList ys) =
     (if py_ne (VDict d) (VList ys) then [Difference path (VDict d) (VList ys)] else [])"
  "report path (VDict d) (VScalar b) =
     (if py_ne (VDict d) (VScalar b) then [Difference path (VDict d) (VScalar b)] else [])"
  "report path (VList xs) (VDict e) =
     (if py_ne (VList xs) (VDict e) then [Difference path (VList xs) (VDict e)] else [])"
  "report path (VList xs) (VScalar b) =
     (if py_ne (VList xs) (VScalar b) then [Difference path (VList xs) (VScalar b)] else [])"
  by (simp_all add: report_def init_def print_def)

lemmas run =
  report_dict report_list report_other py_ne_def scalar_eq_def float_eq_def same_object_def
  key_path_def index_path_def str_nat.simps digit_def

lemma report_unequal: "py_ne l r \<Longrightarrow> \<exists>rest. report path l r = Difference path l r # rest"
  by (cases l; cases r) (simp_all add: report_dict report_list report_other)

section \<open>Equal values\<close>

lemma scalar_eq_refl: "a \<noteq> SFloat NaN \<Longrightarrow> scalar_eq a a"
  by (cases a) (auto simp: scalar_eq_def float_eq_def)

lemma py_eq_refl: "well_formed v \<Longrightarrow> nan_free v \<Longrightarrow> py_eq v v"
proof (induction v)
  case (VDict l)
  have "case map_of l k of None \<Rightarrow> False | Some w \<Rightarrow> same_object v w \<or> py_eq v w"
    if "(k, v) \<in> set l" for k v
  proof -
    from VDict.prems that have "map_of l k = Some v" by simp
    moreover from VDict.prems that have "well_formed v" "nan_free v"
      by (auto simp: list_all_iff)
    ultimately show ?thesis using VDict.IH[of "(k, v)" v] that by simp
  qed
  then show ?case by (auto simp: list_all_iff)
next
  case (VList l)
  then show ?case by (auto simp: list_all_iff)
next
  case (VScalar a)
  then show ?case by (simp add: scalar_eq_refl)
qed

lemma same_object_nan_free: "nan_free v \<Longrightarrow> \<not> same_object v w"
  by (auto simp: same_object_def)

text \<open>
  Two dicts of the same size, the left with distinct keys all found in the right, have the
  same keys: none is left over in the right.
\<close>

lemma keys_covered:
  assumes len: "length l = length r" and dist: "distinct (map fst l)"
    and sub: "\<And>k v. (k, v) \<in> set l \<Longrightarrow> map_of r k \<noteq> None"
    and kr: "(k, w) \<in> set r"
  shows "map_of l k \<noteq> None"
proof -
  have "fst ` set l \<subseteq> fst ` set r"
    using sub by (auto simp: map_of_eq_None_iff)
  moreover have "card (fst ` set l) = length l"
    using dist by (metis distinct_card length_map set_map)
  moreover have "card (fst ` set r) \<le> length r"
    by (metis card_length length_map set_map)
  ultimately have "fst ` set l = fst ` set r"
    using len by (metis List.finite_set card_subset_eq finite_imageI card_mono le_antisym)
  moreover from kr have "k \<in> fst ` set r" by force
  ultimately have "k \<in> fst ` set l" by simp
  then show ?thesis by (simp add: map_of_eq_None_iff)
qed

lemma report_equal:
  "py_eq l r \<Longrightarrow> well_formed l \<Longrightarrow> nan_free l \<Longrightarrow> report path l r = []"
proof (induction l arbitrary: r path)
  case (VDict l)
  then obtain rd where r: "r = VDict rd" by (cases r) auto
  from VDict.prems(1) have len: "length l = length rd"
    and each: "\<And>k v. (k, v) \<in> set l \<Longrightarrow>
        (case map_of rd k of None \<Rightarrow> False | Some w \<Rightarrow> same_object v w \<or> py_eq v w)"
    by (auto simp: r list_all_iff)
  have child: "(case map_of rd k of Some w \<Rightarrow> report (key_path path k) v w
                | None \<Rightarrow> [MissingRight (key_path path k)]) = []" if kv: "(k, v) \<in> set l" for k v
  proof -
    from each[OF kv] obtain w where w: "map_of rd k = Some w" and "same_object v w \<or> py_eq v w"
      by (auto split: option.splits)
    moreover from VDict.prems kv have "well_formed v" "nan_free v" by (auto simp: list_all_iff)
    ultimately have "report (key_path path k) v w = []"
      using VDict.IH[of "(k, v)" v w] kv same_object_nan_free by auto
    with w show ?thesis by simp
  qed
  have extra: "map_of l k \<noteq> None" if "(k, w) \<in> set rd" for k w
  proof (rule keys_covered[OF len _ _ that])
    show "distinct (map fst l)" using VDict.prems by simp
    show "map_of rd k \<noteq> None" if "(k, v) \<in> set l" for k v
      using each[OF that] by (auto split: option.splits)
  qed
  show ?case
    using VDict.prems(1) child extra by (auto simp: r report_dict py_ne_def)
next
  case (VList l)
  then obtain rl where r: "r = VList rl" by (cases r) auto
  from VList.prems(1) have len: "length l = length rl"
    and each: "\<And>i. i < length l \<Longrightarrow> same_object (l ! i) (rl ! i) \<or> py_eq (l ! i) (rl ! i)"
    by (auto simp: r list_all_iff)
  have "report (index_path path i) (l ! i) (rl ! i) = []" if "i < length l" for i
  proof -
    from that VList.prems have "well_formed (l ! i)" "nan_free (l ! i)"
      by (auto simp: list_all_length)
    then show ?thesis
      using VList.IH[of "l ! i" "rl ! i"] each[OF that] that same_object_nan_free by auto
  qed
  then show ?case
    using VList.prems(1) len by (auto simp: r report_list py_ne_def)
next
  case (VScalar a)
  then show ?case by (simp add: report_other py_ne_def)
qed

section \<open>Depth of the items\<close>

lemma fold_max_ge: "x \<in> set xs \<Longrightarrow> (x::nat) \<le> fold max xs 0"
  by (metis List.finite_set Max.set_eq_fold Max_ge list.set_intros(2))

lemma depth_entry: "(k, v) \<in> set l \<Longrightarrow> depth v < depth (VDict l)"
proof -
  assume "(k, v) \<in> set l"
  then have "depth v \<in> set (map (\<lambda>(k, v). depth v) l)" by force
  then show ?thesis using fold_max_ge by fastforce
qed

lemma depth_nth: "i < length l \<Longrightarrow> depth (l ! i) < depth (VList l)"
proof -
  assume "i < length l"
  then have "depth (l ! i) \<in> set (map depth l)" by simp
  then show ?thesis using fold_max_ge by fastforce
qed

lemma fold_bind:
  assumes "\<And>x t. x \<in> set xs \<Longrightarrow> fo x (Some t) = Some (f x t)"
  shows "fold fo xs (Some s) = Some (fold f xs s)"
  using assms by (induction xs arbitrary: s) simp_all

section \<open>The claims\<close>

subsection \<open>C1: the run on the two sample documents\<close>

lemma sample_run:
  "map (\<lambda>x. (kind_of x, path_of x)) (report ''root'' left_doc right_doc) =
     [(ValueMismatch, ''root''),
      (ValueMismatch, ''root.components''),
      (ValueMismatch, ''root.components.schemas''),
      (ValueMismatch, ''root.components.schemas.ValidationErrorBodySchema''),
      (ValueMismatch, ''root.components.schemas.ValidationErrorBodySchema.properties''),
      (ValueMismatch, ''root.components.schemas.ValidationErrorBodySchema.properties.fields''),
      (ValueMismatch,
       ''root.components.schemas.ValidationErrorBodySchema.properties.fields.type'')]"
  unfolding left_doc_def right_doc_def by (simp add: run)

lemma stdout_script: "stdout (script (init l r)) = report ''root'' l r"
  by (simp add: script_def stdout_compare init_def)

text \<open>
  C1, as stated, fails. The claim says the run on the two sample documents prints exactly
  two records, one at the \<^verbatim>\<open>fields\<close> node and one at \<^verbatim>\<open>fields.type\<close>. On the documents
  the two texts denote, the run prints seven lines, not two.
\<close>

theorem sample_two_records_counterexample:
  "length (stdout (script (init left_doc right_doc))) = 7 \<and>
   length (stdout (script (init left_doc right_doc))) \<noteq> 2"
proof -
  have "length (map (\<lambda>x. (kind_of x, path_of x)) (report ''root'' left_doc right_doc)) = 7"
    by (simp add: sample_run)
  then show ?thesis by (simp add: stdout_script)
qed

text \<open>
  C1, amended: the run of \<^verbatim>\<open>compare("root", left, right)\<close> on the two sample documents
  (the two texts, each closed by the brace it lacks), which differ only in the
  \<^verbatim>\<open>type\<close> under \<^verbatim>\<open>ValidationErrorBodySchema.properties.fields\<close>, prints exactly seven
  lines, all of them value mismatches: one at every node on the way from \<^verbatim>\<open>root\<close> down to
  \<^verbatim>\<open>fields\<close> and \<^verbatim>\<open>fields.type\<close>, in that order. No line reports a missing key or a
  length mismatch.
\<close>

theorem sample_run_mismatch_per_ancestor:
  "map path_of (stdout (script (init left_doc right_doc))) =
     [''root'',
      ''root.components'',
      ''root.components.schemas'',
      ''root.components.schemas.ValidationErrorBodySchema'',
      ''root.components.schemas.ValidationErrorBodySchema.properties'',
      ''root.components.schemas.ValidationErrorBodySchema.properties.fields'',
      ''root.components.schemas.ValidationErrorBodySchema.properties.fields.type''] \<and>
   map kind_of (stdout (script (init left_doc right_doc))) = replicate 7 ValueMismatch"
proof -
  let ?out = "report ''root'' left_doc right_doc"
  have "map path_of ?out = map snd (map (\<lambda>x. (kind_of x, path_of x)) ?out)"
    and "map kind_of ?out = map fst (map (\<lambda>x. (kind_of x, path_of x)) ?out)"
    by (simp_all add: comp_def)
  then show ?thesis
    by (simp only: stdout_script sample_run) (simp add: numeral_eq_Suc)
qed

subsection \<open>C2: a value against itself\<close>

text \<open>
  C2, as stated, fails. The claim says \<^verbatim>\<open>compare(p, v, v)\<close> prints nothing for every value
  \<^verbatim>\<open>v\<close>. For \<^verbatim>\<open>v = NaN\<close>, which \<^verbatim>\<open>json.loads\<close> yields for the literal \<^verbatim>\<open>NaN\<close>, line 11 finds
  \<^verbatim>\<open>v != v\<close> and line 12 prints.
\<close>

theorem reflexivity_nan_counterexample:
  "stdout (compare ''p'' (VScalar (SFloat NaN)) (VScalar (SFloat NaN))
            (init (VScalar (SFloat NaN)) (VScalar (SFloat NaN)))) =
     [Difference ''p'' (VScalar (SFloat NaN)) (VScalar (SFloat NaN))]"
  by (simp add: init_def print_def py_ne_def scalar_eq_def float_eq_def)

text \<open>
  C2, amended: for every path and every value \<^verbatim>\<open>v\<close> that holds no \<^verbatim>\<open>NaN\<close> (its dicts
  holding each key once, as Python's do), \<^verbatim>\<open>compare(p, v, v)\<close> prints nothing: it returns
  the state it was given.
\<close>

theorem compare_reflexive:
  assumes "well_formed v" and "nan_free v"
  shows "compare path v v s = s"
proof -
  from assms have "py_eq v v" by (rule py_eq_refl)
  then have "report path v v = []" using assms by (rule report_equal)
  then show ?thesis by (simp add: compare_report)
qed

theorem compare_reflexive_witness:
  "well_formed (VDict [(''a'', VList [VScalar (SInt 1), VScalar (SStr ''x'')]), (''b'', VScalar SNone)]) \<and>
   nan_free (VDict [(''a'', VList [VScalar (SInt 1), VScalar (SStr ''x'')]), (''b'', VScalar SNone)]) \<and>
   compare ''p''
     (VDict [(''a'', VList [VScalar (SInt 1), VScalar (SStr ''x'')]), (''b'', VScalar SNone)])
     (VDict [(''a'', VList [VScalar (SInt 1), VScalar (SStr ''x'')]), (''b'', VScalar SNone)])
     (init (VScalar SNone) (VScalar SNone)) = init (VScalar SNone) (VScalar SNone)"
proof -
  let ?v = "VDict [(''a'', VList [VScalar (SInt 1), VScalar (SStr ''x'')]), (''b'', VScalar SNone)]"
  have wf: "well_formed ?v" and nf: "nan_free ?v" by simp_all
  from compare_reflexive[OF wf nf] wf nf show ?thesis by simp
qed

subsection \<open>C3: unequal containers are reported and still walked\<close>

text \<open>
  C3: when both arguments are dicts, or both lists, and they are unequal, \<^verbatim>\<open>compare\<close>
  prints the value-mismatch line at the parent path first and then everything the walk
  of the children prints. In particular \<^verbatim>\<open>{"x": {"y": 1}}\<close> against \<^verbatim>\<open>{"x": {"y": 2}}\<close>
  gives a value mismatch at \<^verbatim>\<open>path.x\<close> besides the one at \<^verbatim>\<open>path.x.y\<close> (and, the two
  outer dicts being unequal as well, one at \<^verbatim>\<open>path\<close>).
\<close>

theorem unequal_containers_reported_and_walked:
  "(py_ne (VDict l) (VDict r) \<longrightarrow>
      stdout (compare path (VDict l) (VDict r) s) =
        stdout s @ [Difference path (VDict l) (VDict r)] @
        concat (map (\<lambda>(k, v). case map_of r k of
                                  Some w \<Rightarrow> report (key_path path k) v w
                                | None \<Rightarrow> [MissingRight (key_path path k)]) l) @
        concat (map (\<lambda>(k, w). if map_of l k = None
                                then [MissingLeft (key_path path k)] else []) r)) \<and>
   (py_ne (VList xs) (VList ys) \<longrightarrow>
      stdout (compare path (VList xs) (VList ys) s) =
        stdout s @ [Difference path (VList xs) (VList ys)] @
        (if length xs \<noteq> length ys then [LengthMismatch path] else []) @
        concat (map (\<lambda>i. report (index_path path i) (xs ! i) (ys ! i))
                    [0..<min (length xs) (length ys)])) \<and>
   stdout (compare ''path'' (VDict [(''x'', VDict [(''y'', VScalar (SInt 1))])])
                            (VDict [(''x'', VDict [(''y'', VScalar (SInt 2))])]) s) =
     stdout s @
     [Difference ''path'' (VDict [(''x'', VDict [(''y'', VScalar (SInt 1))])])
                          (VDict [(''x'', VDict [(''y'', VScalar (SInt 2))])]),
      Difference ''path.x'' (VDict [(''y'', VScalar (SInt 1))]) (VDict [(''y'', VScalar (SInt 2))]),
      Difference ''path.x.y'' (VScalar (SInt 1)) (VScalar (SInt 2))]"
proof (intro conjI impI)
  assume "py_ne (VDict l) (VDict r)"
  then show "stdout (compare path (VDict l) (VDict r) s) =
        stdout s @ [Difference path (VDict l) (VDict r)] @
        concat (map (\<lambda>(k, v). case map_of r k of
                                  Some w \<Rightarrow> report (key_path path k) v w
                                | None \<Rightarrow> [MissingRight (key_path path k)]) l) @
        concat (map (\<lambda>(k, w). if map_of l k = None
                                then [MissingLeft (key_path path k)] else []) r)"
    by (simp only: stdout_compare report_dict if_True)
next
  assume "py_ne (VList xs) (VList ys)"
  then show "stdout (compare path (VList xs) (VList ys) s) =
        stdout s @ [Difference path (VList xs) (VList ys)] @
        (if length xs \<noteq> length ys then [LengthMismatch path] else []) @
        concat (map (\<lambda>i. report (index_path path i) (xs ! i) (ys ! i))
                    [0..<min (length xs) (length ys)])"
    by (simp only: stdout_compare report_list if_True)
next
  show "stdout (compare ''path'' (VDict [(''x'', VDict [(''y'', VScalar (SInt 1))])])
                            (VDict [(''x'', VDict [(''y'', VScalar (SInt 2))])]) s) =
     stdout s @
     [Difference ''path'' (VDict [(''x'', VDict [(''y'', VScalar (SInt 1))])])
                          (VDict [(''x'', VDict [(''y'', VScalar (SInt 2))])]),
      Difference ''path.x'' (VDict [(''y'', VScalar (SInt 1))]) (VDict [(''y'', VScalar (SInt 2))]),
      Difference ''path.x.y'' (VScalar (SInt 1)) (VScalar (SInt 2))]"
    by (simp only: stdout_compare) (simp add: run)
qed

theorem unequal_containers_witness:
  "py_ne (VDict [(''x'', VDict [(''y'', VScalar (SInt 1))])])
         (VDict [(''x'', VDict [(''y'', VScalar (SInt 2))])]) \<and>
   py_ne (VList [VScalar (SInt 1), VScalar (SInt 2)]) (VList [VScalar (SInt 1), VScalar (SInt 3)]) \<and>
   stdout (compare ''path'' (VDict [(''x'', VDict [(''y'', VScalar (SInt 1))])])
                            (VDict [(''x'', VDict [(''y'', VScalar (SInt 2))])])
                   (init (VScalar SNone) (VScalar SNone))) =
     [Difference ''path'' (VDict [(''x'', VDict [(''y'', VScalar (SInt 1))])])
                          (VDict [(''x'', VDict [(''y'', VScalar (SInt 2))])])] @
     report ''path.x'' (VDict [(''y'', VScalar (SInt 1))]) (VDict [(''y'', VScalar (SInt 2))]) \<and>
   stdout (compare ''path'' (VList [VScalar (SInt 1), VScalar (SInt 2)])
                            (VList [VScalar (SInt 1), VScalar (SInt 3)])
                   (init (VScalar SNone) (VScalar SNone))) =
     [Difference ''path'' (VList [VScalar (SInt 1), VScalar (SInt 2)])
                          (VList [VScalar (SInt 1), VScalar (SInt 3)])] @
     report ''path[0]'' (VScalar (SInt 1)) (VScalar (SInt 1)) @
     report ''path[1]'' (VScalar (SInt 2)) (VScalar (SInt 3))"
proof -
  let ?l = "[(''x'', VDict [(''y'', VScalar (SInt 1))])]"
  let ?r = "[(''x'', VDict [(''y'', VScalar (SInt 2))])]"
  let ?xs = "[VScalar (SInt 1), VScalar (SInt 2)]"
  let ?ys = "[VScalar (SInt 1), VScalar (SInt 3)]"
  have ne1: "py_ne (VDict ?l) (VDict ?r)"
    by (simp add: py_ne_def scalar_eq_def float_eq_def same_object_def)
  have ne2: "py_ne (VList ?xs) (VList ?ys)"
    by (simp add: py_ne_def scalar_eq_def float_eq_def same_object_def)
  from unequal_containers_reported_and_walked
         [of ?l ?r "''path''" "init (VScalar SNone) (VScalar SNone)" ?xs ?ys] ne1 ne2
  show ?thesis
    by (simp add: init_def key_path_def index_path_def str_nat.simps digit_def)
qed

subsection \<open>C4: lists of different lengths\<close>

text \<open>
  C4: when both arguments are lists of different lengths, \<^verbatim>\<open>compare\<close> prints a
  length-mismatch line at the list's path and still compares the common prefix pairwise,
  at the indices \<^verbatim>\<open>0 .. min(len(l), len(r)) - 1\<close>. In particular \<^verbatim>\<open>[1, 2, 3]\<close> against
  \<^verbatim>\<open>[1, 9]\<close> gives the length mismatch at the list's path and a value mismatch at index
  1, and nothing at index 2. (Lists of different lengths are unequal, so the value
  mismatch of the lists themselves comes first.)
\<close>

theorem length_mismatch_keeps_prefix:
  "(length xs \<noteq> length ys \<longrightarrow>
      stdout (compare path (VList xs) (VList ys) s) =
        stdout s @ [Difference path (VList xs) (VList ys), LengthMismatch path] @
        concat (map (\<lambda>i. report (index_path path i) (xs ! i) (ys ! i))
                    [0..<min (length xs) (length ys)])) \<and>
   stdout (compare path (VList [VScalar (SInt 1), VScalar (SInt 2), VScalar (SInt 3)])
                        (VList [VScalar (SInt 1), VScalar (SInt 9)]) s) =
     stdout s @
     [Difference path (VList [VScalar (SInt 1), VScalar (SInt 2), VScalar (SInt 3)])
                      (VList [VScalar (SInt 1), VScalar (SInt 9)]),
      LengthMismatch path,
      Difference (path @ ''[1]'') (VScalar (SInt 2)) (VScalar (SInt 9))]"
proof
  show "length xs \<noteq> length ys \<longrightarrow>
      stdout (compare path (VList xs) (VList ys) s) =
        stdout s @ [Difference path (VList xs) (VList ys), LengthMismatch path] @
        concat (map (\<lambda>i. report (index_path path i) (xs ! i) (ys ! i))
                    [0..<min (length xs) (length ys)])"
  proof
    assume len: "length xs \<noteq> length ys"
    then have "py_ne (VList xs) (VList ys)" by (simp add: py_ne_def)
    with len show "stdout (compare path (VList xs) (VList ys) s) =
        stdout s @ [Difference path (VList xs) (VList ys), LengthMismatch path] @
        concat (map (\<lambda>i. report (index_path path i) (xs ! i) (ys ! i))
                    [0..<min (length xs) (length ys)])"
      by (simp add: stdout_compare report_list del: compare.simps)
  qed
next
  show "stdout (compare path (VList [VScalar (SInt 1), VScalar (SInt 2), VScalar (SInt 3)])
                        (VList [VScalar (SInt 1), VScalar (SInt 9)]) s) =
     stdout s @
     [Difference path (VList [VScalar (SInt 1), VScalar (SInt 2), VScalar (SInt 3)])
                      (VList [VScalar (SInt 1), VScalar (SInt 9)]),
      LengthMismatch path,
      Difference (path @ ''[1]'') (VScalar (SInt 2)) (VScalar (SInt 9))]"
    by (simp only: stdout_compare) (simp add: run)
qed

theorem length_mismatch_witness:
  "length [VScalar (SInt 1), VScalar (SInt 2), VScalar (SInt 3)] \<noteq>
     length [VScalar (SInt 1), VScalar (SInt 9)] \<and>
   stdout (compare ''path'' (VList [VScalar (SInt 1), VScalar (SInt 2), VScalar (SInt 3)])
                            (VList [VScalar (SInt 1), VScalar (SInt 9)])
                   (init (VScalar SNone) (VScalar SNone))) =
     [Difference ''path'' (VList [VScalar (SInt 1), VScalar (SInt 2), VScalar (SInt 3)])
                          (VList [VScalar (SInt 1), VScalar (SInt 9)]),
      LengthMismatch ''path''] @
     report ''path[0]'' (VScalar (SInt 1)) (VScalar (SInt 1)) @
     report ''path[1]'' (VScalar (SInt 2)) (VScalar (SInt 9))"
proof -
  let ?xs = "[VScalar (SInt 1), VScalar (SInt 2), VScalar (SInt 3)]"
  let ?ys = "[VScalar (SInt 1), VScalar (SInt 9)]"
  have len: "length ?xs \<noteq> length ?ys" by simp
  note general = length_mismatch_keeps_prefix
    [of ?xs ?ys "''path''" "init (VScalar SNone) (VScalar SNone)", THEN conjunct1, THEN mp, OF len]
  have "[0..<min (length ?xs) (length ?ys)] = [0, 1]" by (simp add: upt_rec)
  with general len show ?thesis
    by (simp add: init_def index_path_def str_nat.simps digit_def del: compare.simps)
qed

subsection \<open>C5: keys missing on either side\<close>

text \<open>
  C5: \<^verbatim>\<open>{a: 1}\<close> against \<^verbatim>\<open>{b: 1}\<close> gives exactly one missing-key-in-right line, at
  \<^verbatim>\<open>path.a\<close>, and exactly one missing-key-in-left line, at \<^verbatim>\<open>path.b\<close>. The only other
  line is the value mismatch of the two dicts, printed first.
\<close>

theorem missing_keys_both_sides:
  "stdout (compare path (VDict [(''a'', VScalar (SInt 1))]) (VDict [(''b'', VScalar (SInt 1))]) s) =
     stdout s @
     [Difference path (VDict [(''a'', VScalar (SInt 1))]) (VDict [(''b'', VScalar (SInt 1))]),
      MissingRight (path @ ''.a''),
      MissingLeft (path @ ''.b'')]"
  by (simp only: stdout_compare) (simp add: run)

subsection \<open>C6: the order of the lines\<close>

text \<open>
  C6: the lines come in a fixed order, depth first. A node's own value-mismatch line comes
  before every line of its children. For two dicts the children follow in the order of
  the left dict's keys, each child with all its lines (or its missing-key-in-right line)
  before the next, and the lines for keys only in the right dict come after that whole
  pass, in the order of the right dict's keys. For two lists the length-mismatch line is
  next after the node's own, and the children follow in index order.
\<close>

theorem lines_in_fixed_order:
  "stdout (compare path (VDict l) (VDict r) s) =
     stdout s @
     (if py_ne (VDict l) (VDict r) then [Difference path (VDict l) (VDict r)] else []) @
     concat (map (\<lambda>(k, v). case map_of r k of
                               Some w \<Rightarrow> stdout (compare (key_path path k) v w (init v w))
                             | None \<Rightarrow> [MissingRight (key_path path k)]) l) @
     concat (map (\<lambda>(k, w). if map_of l k = None then [MissingLeft (key_path path k)] else []) r) \<and>
   stdout (compare path (VList xs) (VList ys) s) =
     stdout s @
     (if py_ne (VList xs) (VList ys) then [Difference path (VList xs) (VList ys)] else []) @
     (if length xs \<noteq> length ys then [LengthMismatch path] else []) @
     concat (map (\<lambda>i. stdout (compare (index_path path i) (xs ! i) (ys ! i)
                                         (init (xs ! i) (ys ! i))))
                 [0..<min (length xs) (length ys)])"
proof -
  have started_empty: "stdout (init a b) = []" for a b
    by (simp add: init_def)
  show ?thesis
    by (simp only: stdout_compare report_dict report_list started_empty append_Nil)
qed

subsection \<open>C7: termination\<close>

text \<open>
  C7: \<^verbatim>\<open>compare\<close> terminates on every pair of values, and its calls nest no deeper than
  the shallower argument is deep. Every recursive call goes to an item of both arguments,
  so a budget of nested calls larger than the depth of either argument is never spent:
  the budgeted run returns, and returns what \<open>compare\<close> returns.
\<close>

theorem compare_terminates:
  "min (depth l) (depth r) < n \<Longrightarrow> compare_fuel n path l r s = Some (compare path l r s)"
proof (induction n arbitrary: path l r s)
  case 0
  then show ?case by simp
next
  case (Suc n)
  show ?case
  proof (cases l)
    case (VDict ld)
    note l = this
    show ?thesis
    proof (cases r)
      case (VDict rd)
      have child: "compare_fuel n (key_path path k) v w t = Some (compare (key_path path k) v w t)"
        if "(k, v) \<in> set ld" "map_of rd k = Some w" for k v w t
      proof -
        from that(2) have "(k, w) \<in> set rd" by (rule map_of_SomeD)
        then have "depth w < depth r" unfolding VDict by (rule depth_entry)
        moreover from that(1) have "depth v < depth l" unfolding l by (rule depth_entry)
        ultimately have "min (depth v) (depth w) < n" using Suc.prems by simp
        then show ?thesis by (rule Suc.IH)
      qed
      have "fold (\<lambda>(k, v) t. case map_of rd k of
                                 Some w \<Rightarrow> Option.bind t (compare_fuel n (key_path path k) v w)
                               | None \<Rightarrow> map_option (print (MissingRight (key_path path k))) t)
                 ld (Some t) =
            Some (fold (\<lambda>(k, v) t. case map_of rd k of
                                       Some w \<Rightarrow> compare (key_path path k) v w t
                                     | None \<Rightarrow> print (MissingRight (key_path path k)) t) ld t)" for t
        by (rule fold_bind) (auto simp: child split: option.splits)
      then show ?thesis
        by (simp add: l VDict Let_def)
    qed (simp_all add: l)
  next
    case (VList ll)
    note l = this
    show ?thesis
    proof (cases r)
      case (VList rl)
      have child: "compare_fuel n (index_path path i) (ll ! i) (rl ! i) t =
                   Some (compare (index_path path i) (ll ! i) (rl ! i) t)"
        if "i < min (length ll) (length rl)" for i t
      proof -
        from that have "depth (ll ! i) < depth (VList ll)" "depth (rl ! i) < depth (VList rl)"
          by (simp_all only: depth_nth min_less_iff_conj)
        then have "depth (ll ! i) < depth l" "depth (rl ! i) < depth r"
          by (simp_all only: VList l)
        then have "min (depth (ll ! i)) (depth (rl ! i)) < n" using Suc.prems by simp
        then show ?thesis by (rule Suc.IH)
      qed
      have "fold (\<lambda>i t. Option.bind t (compare_fuel n (index_path path i) (ll ! i) (rl ! i)))
              [0..<min (length ll) (length rl)] (Some t) =
            Some (fold (\<lambda>i t. compare (index_path path i) (ll ! i) (rl ! i) t)
              [0..<min (length ll) (length rl)] t)" for t
        by (rule fold_bind) (simp add: child)
      then show ?thesis
        by (simp add: l VList Let_def)
    qed (simp_all add: l)
  next
    case (VScalar a)
    then show ?thesis by (cases r) simp_all
  qed
qed

theorem compare_terminates_witness:
  "min (depth (VDict [(''x'', VDict [(''y'', VScalar (SInt 1))])]))
       (depth (VDict [(''x'', VDict [(''y'', VScalar (SInt 2))])])) < 3 \<and>
   compare_fuel 3 ''path'' (VDict [(''x'', VDict [(''y'', VScalar (SInt 1))])])
                           (VDict [(''x'', VDict [(''y'', VScalar (SInt 2))])])
                (init (VScalar SNone) (VScalar SNone)) =
     Some (compare ''path'' (VDict [(''x'', VDict [(''y'', VScalar (SInt 1))])])
                            (VDict [(''x'', VDict [(''y'', VScalar (SInt 2))])])
                   (init (VScalar SNone) (VScalar SNone)))"
proof -
  have d: "min (depth (VDict [(''x'', VDict [(''y'', VScalar (SInt 1))])]))
               (depth (VDict [(''x'', VDict [(''y'', VScalar (SInt 2))])])) < 3"
    by simp
  from compare_terminates[OF d] d show ?thesis by blast
qed

subsection \<open>C8: the inputs are left as they were\<close>

text \<open>
  C8: \<^verbatim>\<open>compare\<close> never changes either input. The call only appends to standard output;
  the two documents held in \<^verbatim>\<open>left\<close> and \<^verbatim>\<open>right\<close> are after the call what they were
  before it, and so when they are the arguments of the call.
\<close>

theorem compare_leaves_inputs:
  "left (compare path l r s) = left s \<and> right (compare path l r s) = right s \<and>
   left (compare path l r (init l r)) = l \<and> right (compare path l r (init l r)) = r \<and>
   left (script s) = left s \<and> right (script s) = right s"
proof -
  have frame: "left (compare p a b t) = left t \<and> right (compare p a b t) = right t" for p a b t
    by (subst (1 2) compare_report) simp
  show ?thesis
    by (simp only: frame script_def) (simp add: init_def)
qed

subsection \<open>C9: no lines exactly for equal values\<close>

text \<open>
  C9, as stated, fails. The claim says \<^verbatim>\<open>compare(p, l, r)\<close> prints nothing if and only if
  \<^verbatim>\<open>l == r\<close>. The two lists \<^verbatim>\<open>[NaN]\<close> and \<^verbatim>\<open>[NaN]\<close>, as \<^verbatim>\<open>json.loads\<close> decodes them,
  are equal (their items are the same object), yet the call on index 0 compares
  \<^verbatim>\<open>nan != nan\<close> and prints.
\<close>

theorem equal_yet_reported_counterexample:
  "py_eq (VList [VScalar (SFloat NaN)]) (VList [VScalar (SFloat NaN)]) \<and>
   stdout (compare ''p'' (VList [VScalar (SFloat NaN)]) (VList [VScalar (SFloat NaN)])
                   (init (VList [VScalar (SFloat NaN)]) (VList [VScalar (SFloat NaN)]))) =
     [Difference ''p[0]'' (VScalar (SFloat NaN)) (VScalar (SFloat NaN))]"
  by (simp only: stdout_compare) (simp add: run init_def)

text \<open>
  C9, amended: for every path \<^verbatim>\<open>p\<close> and values \<^verbatim>\<open>l\<close>, \<^verbatim>\<open>r\<close>, where \<^verbatim>\<open>l\<close> holds no
  \<^verbatim>\<open>NaN\<close> (its dicts holding each key once), \<^verbatim>\<open>compare(p, l, r)\<close> prints nothing if and
  only if \<^verbatim>\<open>l == r\<close>. And for all \<^verbatim>\<open>l\<close>, \<^verbatim>\<open>r\<close>: whenever \<^verbatim>\<open>l != r\<close>, at least one line is
  printed, the first being the value mismatch at \<^verbatim>\<open>p\<close> itself.
\<close>

theorem silent_iff_equal:
  "(well_formed l \<and> nan_free l \<longrightarrow> (stdout (compare path l r s) = stdout s \<longleftrightarrow> py_eq l r)) \<and>
   (py_ne l r \<longrightarrow>
      (\<exists>rest. stdout (compare path l r s) = stdout s @ Difference path l r # rest))"
proof (intro conjI impI)
  assume wf: "well_formed l \<and> nan_free l"
  show "stdout (compare path l r s) = stdout s \<longleftrightarrow> py_eq l r"
  proof
    assume "stdout (compare path l r s) = stdout s"
    then have silent: "report path l r = []" by (simp add: stdout_compare)
    show "py_eq l r"
    proof (rule ccontr)
      assume "\<not> py_eq l r"
      then have "py_ne l r" by (simp add: py_ne_def)
      then obtain rest where "report path l r = Difference path l r # rest"
        using report_unequal by blast
      with silent show False by simp
    qed
  next
    assume "py_eq l r"
    with wf have "report path l r = []" by (simp add: report_equal)
    then show "stdout (compare path l r s) = stdout s" by (simp add: stdout_compare)
  qed
next
  assume "py_ne l r"
  then obtain rest where "report path l r = Difference path l r # rest"
    using report_unequal by blast
  then show "\<exists>rest. stdout (compare path l r s) = stdout s @ Difference path l r # rest"
    by (simp add: stdout_compare)
qed

theorem silent_iff_equal_witness:
  "well_formed (VDict [(''a'', VScalar (SInt 1)), (''b'', VList [])]) \<and>
   nan_free (VDict [(''a'', VScalar (SInt 1)), (''b'', VList [])]) \<and>
   py_eq (VDict [(''a'', VScalar (SInt 1)), (''b'', VList [])])
         (VDict [(''b'', VList []), (''a'', VScalar (SFloat (Finite 1)))]) \<and>
   stdout (compare ''p'' (VDict [(''a'', VScalar (SInt 1)), (''b'', VList [])])
                         (VDict [(''b'', VList []), (''a'', VScalar (SFloat (Finite 1)))])
                   (init (VScalar SNone) (VScalar SNone))) = [] \<and>
   py_ne (VScalar (SStr ''array'')) (VScalar (SStr ''string'')) \<and>
   (\<exists>rest. stdout (compare ''p'' (VScalar (SStr ''array'')) (VScalar (SStr ''string''))
                            (init (VScalar SNone) (VScalar SNone))) =
            Difference ''p'' (VScalar (SStr ''array'')) (VScalar (SStr ''string'')) # rest)"
proof -
  let ?l = "VDict [(''a'', VScalar (SInt 1)), (''b'', VList [])]"
  let ?r = "VDict [(''b'', VList []), (''a'', VScalar (SFloat (Finite 1)))]"
  let ?s = "init (VScalar SNone) (VScalar SNone)"
  have wf: "well_formed ?l \<and> nan_free ?l" by simp
  have eq: "py_eq ?l ?r" by (simp add: scalar_eq_def float_eq_def same_object_def)
  have ne: "py_ne (VScalar (SStr ''array'')) (VScalar (SStr ''string''))"
    by (simp add: py_ne_def scalar_eq_def)
  from silent_iff_equal[of ?l "''p''" ?r ?s] wf eq
  have one: "stdout (compare ''p'' ?l ?r ?s) = []"
    by (simp add: init_def del: compare.simps)
  from silent_iff_equal[of "VScalar (SStr ''array'')" "''p''" "VScalar (SStr ''string'')" ?s] ne
  have two: "\<exists>rest. stdout (compare ''p'' (VScalar (SStr ''array'')) (VScalar (SStr ''string'')) ?s) =
            Difference ''p'' (VScalar (SStr ''array'')) (VScalar (SStr ''string'')) # rest"
    by (simp add: init_def del: compare.simps)
  from wf eq ne one two show ?thesis by blast
qed

subsection \<open>C10: numbers compare across types\<close>

text \<open>
  C10: the test on line 11 follows Python's numeric equality: the integer \<^verbatim>\<open>1\<close> against
  the float \<^verbatim>\<open>1.0\<close>, and \<^verbatim>\<open>True\<close> against the integer \<^verbatim>\<open>1\<close>, are equal, and
  \<^verbatim>\<open>compare\<close> prints no value mismatch (nor anything else) for them.
\<close>

theorem numeric_coercion_is_silent:
  "py_eq (VScalar (SInt 1)) (VScalar (SFloat (Finite 1))) \<and>
   py_eq (VScalar (SBool True)) (VScalar (SInt 1)) \<and>
   compare path (VScalar (SInt 1)) (VScalar (SFloat (Finite 1))) s = s \<and>
   compare path (VScalar (SBool True)) (VScalar (SInt 1)) s = s"
  by (simp add: py_ne_def scalar_eq_def float_eq_def)

end
